theory Spec2Isabelle
  imports Complex_Main
begin

section \<open>Account documents (models/User)\<close>

text \<open>
  The Mongoose schema of a user, restricted to the paths that the OTP methods, the
  points ledger and the challenge routes read or write. A \<open>Number\<close> that only ever
  holds integers is an \<open>int\<close>; a \<open>Date\<close> is its value in milliseconds; a path
  that may be \<open>undefined\<close> is an \<open>option\<close>. Field names carry a prefix naming
  the nested path they belong to (\<open>gamification.level\<close> is \<open>g_level\<close>,
  \<open>wallet.balance\<close> is \<open>w_balance\<close>, and so on).
\<close>

type_synonym time = int

type_synonym object_id = string

datatype txn_type = earned | spent | reward | purchase

record transaction =
  t_type :: txn_type
  t_amount :: int
  t_description :: string
  t_date :: time

record gamification =
  g_level :: int
  g_experience :: int
  g_points :: int

record wallet =
  w_balance :: int
  w_transactions :: "transaction list"

record otp_rec =
  otp_code :: "string option"
  otp_expiresAt :: "time option"

record user =
  u_role :: string
  u_otp :: "otp_rec option"
  u_location_state :: "string option"
  u_farming_experience :: "string option"
  u_gamification :: gamification
  u_wallet :: wallet

text \<open>A document built from the schema defaults alone (role \<open>farmer\<close>, level 1, empty wallet).\<close>

definition newUser :: user where
  "newUser = \<lparr> u_role = ''farmer'', u_otp = None, u_location_state = None,
     u_farming_experience = Some ''beginner'',
     u_gamification = \<lparr> g_level = 1, g_experience = 0, g_points = 0 \<rparr>,
     u_wallet = \<lparr> w_balance = 0, w_transactions = [] \<rparr> \<rparr>"

text \<open>
  An account with the values that the seed script (\<open>seedUsers\<close>) gives its first user:
  level 5 with 2500 experience, and a balance of 2500 beside two transactions of 100 and
  50.
\<close>

definition seedUser :: "time \<Rightarrow> user" where
  "seedUser now = \<lparr> u_role = ''farmer'', u_otp = None, u_location_state = Some ''Punjab'',
     u_farming_experience = Some ''intermediate'',
     u_gamification = \<lparr> g_level = 5, g_experience = 2500, g_points = 2500 \<rparr>,
     u_wallet = \<lparr> w_balance = 2500, w_transactions =
       [\<lparr> t_type = earned, t_amount = 100,
          t_description = ''Completed Drip Irrigation Challenge'', t_date = now \<rparr>,
        \<lparr> t_type = earned, t_amount = 50,
          t_description = ''Email verification bonus'', t_date = now \<rparr>] \<rparr> \<rparr>"

subsection \<open>The points ledger: \<open>addPoints\<close>\<close>

text \<open>
  \<open>userSchema.methods.addPoints(points, description = 'Points earned')\<close>. The description
  is \<open>None\<close> when the caller passes none; \<open>now\<close> is the value of \<open>Date.now\<close> that the
  schema default gives the pushed transaction. \<open>Math.floor (x / 1000)\<close> on an integer is
  \<open>x div 1000\<close> (both round towards minus infinity). The method has no branch that
  rejects; the document returned is the one that \<open>this.save()\<close> stores.
\<close>

definition addPoints :: "user \<Rightarrow> int \<Rightarrow> string option \<Rightarrow> time \<Rightarrow> user" where
  "addPoints this pts description now =
    (let descr = (case description of None \<Rightarrow> ''Points earned'' | Some d \<Rightarrow> d);
         g = u_gamification this;
         g1 = g\<lparr> g_points := g_points g + pts \<rparr>;
         g2 = g1\<lparr> g_experience := g_experience g1 + pts \<rparr>;
         newLevel = g_experience g2 div 1000 + 1;
         g3 = (if newLevel > g_level g2 then g2\<lparr> g_level := newLevel \<rparr> else g2);
         w = u_wallet this;
         w1 = w\<lparr> w_balance := w_balance w + pts \<rparr>;
         w2 = w1\<lparr> w_transactions := w_transactions w1 @
                [\<lparr> t_type = earned, t_amount = pts, t_description = descr, t_date = now \<rparr>] \<rparr>
     in this\<lparr> u_gamification := g3, u_wallet := w2 \<rparr>)"

text \<open>A sequence of calls, each with its amount, its description and the time it runs at.\<close>

type_synonym award = "int \<times> string option \<times> time"

fun awardAll :: "user \<Rightarrow> award list \<Rightarrow> user" where
  "awardAll u [] = u"
| "awardAll u ((pts, d, now) # cs) = awardAll (addPoints u pts d now) cs"

text \<open>
  The signed sum of a transaction log, in the words of the specification: earned, reward
  and purchase entries add their amount, spent entries subtract it.
\<close>

fun signed_amount :: "transaction \<Rightarrow> int" where
  "signed_amount t = (case t_type t of spent \<Rightarrow> - t_amount t | _ \<Rightarrow> t_amount t)"

definition signed_sum :: "transaction list \<Rightarrow> int" where
  "signed_sum ts = sum_list (map signed_amount ts)"

definition balanced :: "user \<Rightarrow> bool" where
  "balanced u \<longleftrightarrow> w_balance (u_wallet u) = signed_sum (w_transactions (u_wallet u))"

definition level_of :: "user \<Rightarrow> int" where
  "level_of u = g_level (u_gamification u)"

definition experience_of :: "user \<Rightarrow> int" where
  "experience_of u = g_experience (u_gamification u)"

definition level_derived :: "user \<Rightarrow> bool" where
  "level_derived u \<longleftrightarrow> level_of u = experience_of u div 1000 + 1"

subsection \<open>One-time codes: \<open>generateOTP\<close>, \<open>verifyOTP\<close>, \<open>clearOTP\<close>\<close>

text \<open>
  \<open>Number.prototype.toString\<close> on a non-negative integer: its decimal digits.
\<close>

definition digit :: "nat \<Rightarrow> char" where
  "digit d = ''0123456789'' ! d"

fun toString :: "nat \<Rightarrow> string" where
  "toString n = (if n < 10 then [digit n] else toString (n div 10) @ [digit (n mod 10)])"

declare toString.simps [simp del]

text \<open>
  \<open>generateOTP\<close>: \<open>r\<close> is the value of
  \<open>Math.floor(100000 + Math.random() * 900000)\<close> (between 100000 and 999999) and
  \<open>now\<close> the value of \<open>Date.now()\<close>. The method returns the code and stores it with
  an expiry ten minutes later.
\<close>

definition generateOTP :: "user \<Rightarrow> nat \<Rightarrow> time \<Rightarrow> string \<times> user" where
  "generateOTP this r now =
    (let otp = toString r
     in (otp, this\<lparr> u_otp := Some \<lparr> otp_code = Some otp,
                                     otp_expiresAt = Some (now + 10 * 60 * 1000) \<rparr> \<rparr>))"

text \<open>JavaScript truthiness of a string path: \<open>undefined\<close> and the empty string are falsy.\<close>

definition truthy :: "string option \<Rightarrow> bool" where
  "truthy s = (case s of None \<Rightarrow> False | Some x \<Rightarrow> x \<noteq> [])"

text \<open>
  \<open>verifyOTP(otp)\<close> at the time \<open>now\<close> (the value of \<open>new Date()\<close>). The method
  assigns nothing; it is written in state-passing style, returning the document beside
  the answer, so that this can be stated. A stored \<open>Date\<close> is always truthy, so
  \<open>!this.otp.expiresAt\<close> holds exactly when the path is absent.
\<close>

definition verifyOTP :: "user \<Rightarrow> string \<Rightarrow> time \<Rightarrow> bool \<times> user" where
  "verifyOTP this otp now =
    (case u_otp this of
       None \<Rightarrow> (False, this)
     | Some stored \<Rightarrow>
        if \<not> truthy (otp_code stored) \<or> otp_expiresAt stored = None then (False, this)
        else (case otp_expiresAt stored of
                None \<Rightarrow> (False, this)
              | Some expiresAt \<Rightarrow>
                 if expiresAt < now then (False, this)
                 else (otp_code stored = Some otp, this)))"

definition clearOTP :: "user \<Rightarrow> user" where
  "clearOTP this = this\<lparr> u_otp := None \<rparr>"

section \<open>Challenge documents (models/Challenge)\<close>

datatype status = pending | in_progress | completed | failed

text \<open>
  The \<open>enum\<close> of a submission's type; its last value, \<open>'text'\<close>, is written
  \<open>text_entry\<close>.
\<close>

datatype submission_type = photo | document | survey | video | text_entry

record submission =
  s_type :: "submission_type option"
  s_content :: "string option"
  s_submittedAt :: time

record participant =
  p_userId :: object_id
  p_joinedAt :: time
  p_completedAt :: "time option"
  p_status :: status
  p_submissions :: "submission list"
  p_pointsEarned :: int

record eligibility =
  e_roles :: "string list"
  e_experience :: "string option"
  e_states :: "string list"
  e_districts :: "string list"

record statistics =
  st_totalParticipants :: int
  st_completedParticipants :: int
  st_successRate :: "rat option"

record challenge =
  c_title :: string
  c_points :: int
  c_eligibility :: eligibility
  c_participants :: "participant list"
  c_isActive :: bool
  c_statistics :: statistics

text \<open>
  A path of the data handed to a constructor: left out (\<open>undefined\<close>), given as
  \<open>null\<close>, or given a value.
\<close>

datatype 'a path = Undefined | Null | Value 'a

text \<open>
  The setter \<open>trim: true\<close> applies \<open>String.prototype.trim\<close>; on the ASCII strings used
  here the white space is tab, line feed, vertical tab, form feed, carriage return and
  space.
\<close>

definition whitespace :: "char \<Rightarrow> bool" where
  "whitespace ch \<longleftrightarrow> ch \<in> set [CHR 0x09, CHR 0x0A, CHR 0x0B, CHR 0x0C, CHR 0x0D, CHR '' '']"

definition trim :: "string \<Rightarrow> string" where
  "trim s = rev (dropWhile whitespace (rev (dropWhile whitespace s)))"

text \<open>
  \<open>new Challenge(challengeData)\<close>, as the seed script builds challenges. The title is
  trimmed. Mongoose gives a schema default to a path that is \<open>undefined\<close> only:
  \<open>eligibility.experience\<close> left out becomes \<open>'beginner'\<close>, while an explicit \<open>null\<close> is
  stored as it is, which the document shows as an unset path. An array path that is left
  out becomes the empty array, \<open>isActive\<close> defaults to \<open>true\<close>, the two counters to 0.
\<close>

record challenge_data =
  d_title :: string
  d_points :: int
  d_roles :: "string list option"
  d_experience :: "string path"
  d_states :: "string list option"
  d_districts :: "string list option"
  d_isActive :: "bool option"

definition newChallenge :: "challenge_data \<Rightarrow> challenge" where
  "newChallenge d =
    \<lparr> c_title = trim (d_title d),
      c_points = d_points d,
      c_eligibility =
        \<lparr> e_roles = (case d_roles d of None \<Rightarrow> [] | Some rs \<Rightarrow> rs),
          e_experience = (case d_experience d of
                            Undefined \<Rightarrow> Some ''beginner''
                          | Null \<Rightarrow> None
                          | Value x \<Rightarrow> Some x),
          e_states = (case d_states d of None \<Rightarrow> [] | Some ss \<Rightarrow> ss),
          e_districts = (case d_districts d of None \<Rightarrow> [] | Some ds \<Rightarrow> ds) \<rparr>,
      c_participants = [],
      c_isActive = (case d_isActive d of None \<Rightarrow> True | Some b \<Rightarrow> b),
      c_statistics = \<lparr> st_totalParticipants = 0, st_completedParticipants = 0,
                       st_successRate = None \<rparr> \<rparr>"

text \<open>
  Of the validators that \<open>save()\<close> runs, the one on \<open>eligibility.experience\<close>: its
  \<open>enum\<close> lets an unset path pass and asks a string to be one of the three levels. The
  validators of the other paths are not part of this development.
\<close>

definition validExperience :: "challenge \<Rightarrow> bool" where
  "validExperience c =
    (case e_experience (c_eligibility c) of
       None \<Rightarrow> True
     | Some x \<Rightarrow> x \<in> set [''beginner'', ''intermediate'', ''expert''])"

datatype error =
  ValidationFailed | ChallengeNotFound | ChallengeInactive | AlreadyJoined
  | NotEligible | NotParticipant | AlreadyCompleted

subsection \<open>The methods of a challenge\<close>

text \<open>The virtual \<open>completionRate\<close>; the quotient of two JavaScript numbers is a rational.\<close>

definition completionRate :: "challenge \<Rightarrow> rat" where
  "completionRate this =
    (if st_totalParticipants (c_statistics this) = 0 then 0
     else (of_int (st_completedParticipants (c_statistics this)) /
           of_int (st_totalParticipants (c_statistics this))) * 100)"

text \<open>
  \<open>this.participants.find(p => p.userId.toString() === userId.toString())\<close>: the first
  entry of the user, if any.
\<close>

definition findParticipant :: "challenge \<Rightarrow> object_id \<Rightarrow> participant option" where
  "findParticipant this userId = find (\<lambda>p. p_userId p = userId) (c_participants this)"

text \<open>Writing to the entry that \<open>find\<close> returned changes the first match in the array.\<close>

fun update_first :: "('a \<Rightarrow> bool) \<Rightarrow> ('a \<Rightarrow> 'a) \<Rightarrow> 'a list \<Rightarrow> 'a list" where
  "update_first P f [] = []"
| "update_first P f (x # xs) = (if P x then f x # xs else x # update_first P f xs)"

definition addParticipant :: "challenge \<Rightarrow> object_id \<Rightarrow> time \<Rightarrow> challenge" where
  "addParticipant this userId now =
    (case findParticipant this userId of
       None \<Rightarrow>
         this\<lparr> c_participants := c_participants this @
                 [\<lparr> p_userId = userId, p_joinedAt = now, p_completedAt = None,
                    p_status = pending, p_submissions = [], p_pointsEarned = 0 \<rparr>],
               c_statistics := (c_statistics this)
                 \<lparr> st_totalParticipants := st_totalParticipants (c_statistics this) + 1 \<rparr> \<rparr>
     | Some existingParticipant \<Rightarrow> this)"

definition updateParticipantStatus ::
    "challenge \<Rightarrow> object_id \<Rightarrow> status \<Rightarrow> submission list \<Rightarrow> time \<Rightarrow> challenge" where
  "updateParticipantStatus this userId st submissions now =
    (case findParticipant this userId of
       None \<Rightarrow> this
     | Some participant \<Rightarrow>
        (let p1 = participant\<lparr> p_status := st \<rparr>;
             p2 = (if length submissions > 0 then p1\<lparr> p_submissions := submissions \<rparr> else p1);
             p3 = (if st = completed
                   then p2\<lparr> p_completedAt := Some now, p_pointsEarned := c_points this \<rparr>
                   else p2);
             stats = c_statistics this;
             stats1 = (if st = completed
                       then stats\<lparr> st_completedParticipants := st_completedParticipants stats + 1 \<rparr>
                       else stats);
             this1 = this\<lparr> c_participants :=
                             update_first (\<lambda>p. p_userId p = userId) (\<lambda>p. p3) (c_participants this),
                           c_statistics := stats1 \<rparr>
         in this1\<lparr> c_statistics := stats1\<lparr> st_successRate := Some (completionRate this1) \<rparr> \<rparr>))"

text \<open>
  \<open>isEligible(user)\<close>. \<open>includes(user.location.state)\<close> is false for a user without a
  state, the array holding strings only.
\<close>

definition isEligible :: "challenge \<Rightarrow> user \<Rightarrow> bool" where
  "isEligible this user =
    (let el = c_eligibility this in
     if length (e_roles el) > 0 \<and> \<not> (u_role user \<in> set (e_roles el)) then False
     else if truthy (e_experience el) \<and> u_farming_experience user \<noteq> e_experience el then False
     else if length (e_states el) > 0 \<and>
             \<not> (case u_location_state user of None \<Rightarrow> False | Some s \<Rightarrow> s \<in> set (e_states el))
          then False
     else True)"

section \<open>The challenge routes\<close>

text \<open>
  \<open>POST /:id/join\<close>. \<open>found\<close> is what \<open>Challenge.findById\<close> returned, \<open>uid\<close> is
  \<open>req.user.id\<close> and \<open>user\<close> the document of that user. The route answers with
  success or with an error and leaves behind the challenge document it saved (or did
  not touch). The error names are those of the specification: the messages
  \<open>Challenge not found\<close>, \<open>Challenge is not active\<close>, \<open>You are already participating in
  this challenge\<close>, \<open>You are not eligible for this challenge\<close>.
\<close>

definition join :: "challenge option \<Rightarrow> object_id \<Rightarrow> user \<Rightarrow> time \<Rightarrow>
    (error + unit) \<times> challenge option" where
  "join found uid user now =
    (case found of
       None \<Rightarrow> (Inl ChallengeNotFound, None)
     | Some challenge \<Rightarrow>
        if \<not> c_isActive challenge then (Inl ChallengeInactive, Some challenge)
        else (case findParticipant challenge uid of
                Some existingParticipant \<Rightarrow> (Inl AlreadyJoined, Some challenge)
              | None \<Rightarrow>
                 if \<not> isEligible challenge user then (Inl NotEligible, Some challenge)
                 else (Inr (), Some (addParticipant challenge uid now))))"

text \<open>
  \<open>POST /:id/submit\<close>. The body's \<open>submissions\<close> is a list here, so the \<open>isArray\<close>
  validation always passes. \<open>now\<close> is the time of the status update, \<open>later\<close> the
  time of the ledger entry. Success answers with \<open>pointsEarned\<close>; the messages of the
  two failures after the lookup are \<open>You are not participating in this challenge\<close> and
  \<open>Challenge already completed\<close>.
\<close>

definition submit :: "challenge option \<Rightarrow> object_id \<Rightarrow> user \<Rightarrow> submission list \<Rightarrow> time \<Rightarrow> time \<Rightarrow>
    (error + int) \<times> challenge option \<times> user" where
  "submit found uid user submissions now later =
    (case found of
       None \<Rightarrow> (Inl ChallengeNotFound, None, user)
     | Some challenge \<Rightarrow>
        (case findParticipant challenge uid of
           None \<Rightarrow> (Inl NotParticipant, Some challenge, user)
         | Some participant \<Rightarrow>
            if p_status participant = completed then (Inl AlreadyCompleted, Some challenge, user)
            else
              (let challenge1 = updateParticipantStatus challenge uid completed submissions now;
                   user1 = addPoints user (c_points challenge1)
                             (Some (''Completed challenge: '' @ c_title challenge1)) later
               in (Inr (c_points challenge1), Some challenge1, user1))))"

text \<open>
  The entry that \<open>addParticipant\<close> pushes, and the entry that
  \<open>updateParticipantStatus\<close> leaves behind when the status is \<open>completed\<close>.
\<close>

definition pendingEntry :: "object_id \<Rightarrow> time \<Rightarrow> participant" where
  "pendingEntry uid now = \<lparr> p_userId = uid, p_joinedAt = now, p_completedAt = None,
     p_status = pending, p_submissions = [], p_pointsEarned = 0 \<rparr>"

definition completedEntry :: "challenge \<Rightarrow> participant \<Rightarrow> submission list \<Rightarrow> time \<Rightarrow> participant" where
  "completedEntry c p subs now =
     p\<lparr> p_status := completed,
        p_submissions := (if subs = [] then p_submissions p else subs),
        p_completedAt := Some now,
        p_pointsEarned := c_points c \<rparr>"

section \<open>Sample documents\<close>

text \<open>
  The second challenge of the seed script and documents reached from it: after one user
  has joined, after that user's entry was moved to \<open>in_progress\<close> with one
  submission, and after it was completed. \<open>dealerUser\<close> is a new user with the role
  \<open>dealer\<close>; \<open>unrestrictedData\<close> is challenge data that leaves every eligibility
  path out, and \<open>nullExperienceData\<close> gives the experience path an explicit \<open>null\<close>
  instead.
\<close>

definition compostData :: challenge_data where
  "compostData = \<lparr> d_title = ''Compost Making Challenge'', d_points = 75,
     d_roles = Some [''farmer'', ''student''], d_experience = Value ''beginner'',
     d_states = Some [], d_districts = Some [], d_isActive = Some True \<rparr>"

definition sampleSubmission :: submission where
  "sampleSubmission = \<lparr> s_type = Some photo, s_content = Some ''pile.jpg'', s_submittedAt = 6 \<rparr>"

definition joinedChallenge :: challenge where
  "joinedChallenge = addParticipant (newChallenge compostData) ''u1'' 5"

definition inProgressChallenge :: challenge where
  "inProgressChallenge = updateParticipantStatus joinedChallenge ''u1'' in_progress [sampleSubmission] 6"

definition completedChallenge :: challenge where
  "completedChallenge = updateParticipantStatus joinedChallenge ''u1'' completed [sampleSubmission] 7"

definition dealerUser :: user where
  "dealerUser = newUser\<lparr> u_role := ''dealer'' \<rparr>"

definition unrestrictedData :: challenge_data where
  "unrestrictedData = \<lparr> d_title = ''Open Challenge'', d_points = 10,
     d_roles = None, d_experience = Undefined, d_states = None, d_districts = None,
     d_isActive = None \<rparr>"

definition nullExperienceData :: challenge_data where
  "nullExperienceData = unrestrictedData\<lparr> d_experience := Null \<rparr>"

section \<open>Facts about the ledger\<close>

lemma addPoints_wallet:
  "u_wallet (addPoints u pts d now) =
     \<lparr> w_balance = w_balance (u_wallet u) + pts,
       w_transactions = w_transactions (u_wallet u) @
         [\<lparr> t_type = earned, t_amount = pts,
            t_description = (case d of None \<Rightarrow> ''Points earned'' | Some s \<Rightarrow> s),
            t_date = now \<rparr>] \<rparr>"
  by (simp add: addPoints_def Let_def)

lemma addPoints_gamification:
  "u_gamification (addPoints u pts d now) =
     \<lparr> g_level = max (g_level (u_gamification u))
                    ((g_experience (u_gamification u) + pts) div 1000 + 1),
       g_experience = g_experience (u_gamification u) + pts,
       g_points = g_points (u_gamification u) + pts \<rparr>"
  by (simp add: addPoints_def Let_def max_def)

lemma signed_sum_append: "signed_sum (xs @ ys) = signed_sum xs + signed_sum ys"
  by (simp add: signed_sum_def)

lemma addPoints_balanced: "balanced u \<Longrightarrow> balanced (addPoints u pts d now)"
  by (simp add: balanced_def addPoints_wallet signed_sum_append) (simp add: signed_sum_def)

lemma awardAll_append: "awardAll u (xs @ ys) = awardAll (awardAll u xs) ys"
  by (induction xs arbitrary: u) auto

lemma awardAll_balanced: "balanced u \<Longrightarrow> balanced (awardAll u cs)"
  by (induction cs arbitrary: u) (auto simp: addPoints_balanced)

lemma addPoints_level_mono: "level_of u \<le> level_of (addPoints u pts d now)"
  by (simp add: level_of_def addPoints_gamification)

lemma awardAll_level_mono: "level_of u \<le> level_of (awardAll u cs)"
proof (induction cs arbitrary: u)
  case Nil
  show ?case by simp
next
  case (Cons c cs)
  obtain pts d now where c: "c = (pts, d, now)" by (cases c)
  have "level_of u \<le> level_of (addPoints u pts d now)" by (rule addPoints_level_mono)
  also have "\<dots> \<le> level_of (awardAll (addPoints u pts d now) cs)" by (rule Cons.IH)
  finally show ?case by (simp add: c)
qed

lemma awardAll_take_level_mono:
  assumes "j \<le> k"
  shows "level_of (awardAll u (take j cs)) \<le> level_of (awardAll u (take k cs))"
proof -
  have "take k cs = take j cs @ take (k - j) (drop j cs)"
    using assms take_add [of j "k - j" cs] by simp
  then show ?thesis
    by (simp add: awardAll_append awardAll_level_mono)
qed

lemma addPoints_level_derived:
  assumes "level_derived u" and "0 \<le> pts"
  shows "level_derived (addPoints u pts d now)"
proof -
  have "experience_of u div 1000 \<le> (experience_of u + pts) div 1000"
    using assms(2) by (intro zdiv_mono1) simp_all
  then show ?thesis
    using assms(1)
    by (simp add: level_derived_def level_of_def experience_of_def addPoints_gamification)
qed

lemma awardAll_level_derived:
  "level_derived u \<Longrightarrow> \<forall>c\<in>set cs. 0 \<le> fst c \<Longrightarrow> level_derived (awardAll u cs)"
proof (induction cs arbitrary: u)
  case Nil
  then show ?case by simp
next
  case (Cons c cs)
  obtain pts d now where c: "c = (pts, d, now)" by (cases c)
  from Cons.prems have "level_derived (addPoints u pts d now)"
    by (simp add: c addPoints_level_derived)
  with Cons.prems show ?case
    by (simp add: c Cons.IH)
qed

section \<open>Facts about one-time codes\<close>

lemma toString_nonempty: "toString n \<noteq> []"
  by (subst toString.simps) simp

lemma verifyOTP_iff:
  "fst (verifyOTP u cand now) \<longleftrightarrow>
     (\<exists>stored code expiresAt. u_otp u = Some stored \<and> otp_code stored = Some code \<and> code \<noteq> []
        \<and> otp_expiresAt stored = Some expiresAt \<and> now \<le> expiresAt \<and> cand = code)"
  by (auto simp: verifyOTP_def truthy_def split: option.splits)

lemma verifyOTP_generated:
  "fst (verifyOTP (snd (generateOTP u r T)) (fst (generateOTP u r T)) now) \<longleftrightarrow>
     now \<le> T + 600000"
  by (simp add: verifyOTP_iff generateOTP_def Let_def toString_nonempty)

section \<open>Facts about the challenge methods and routes\<close>

lemma find_Some_P: "find P xs = Some p \<Longrightarrow> P p"
  by (induction xs) (auto split: if_splits)

lemma find_update_first:
  "find P xs = Some p \<Longrightarrow> P (f p) \<Longrightarrow> find P (update_first P f xs) = Some (f p)"
  by (induction xs) (auto split: if_splits)

lemma find_append_new:
  "find P xs = None \<Longrightarrow> P x \<Longrightarrow> find P (xs @ [x]) = Some x"
  by (induction xs) (auto split: if_splits)

lemma updateParticipantStatus_completed:
  assumes "findParticipant c uid = Some p"
  shows "updateParticipantStatus c uid completed subs now =
     c\<lparr> c_participants :=
          update_first (\<lambda>q. p_userId q = uid) (\<lambda>q. completedEntry c p subs now) (c_participants c),
        c_statistics := (c_statistics c)
          \<lparr> st_completedParticipants := st_completedParticipants (c_statistics c) + 1,
            st_successRate := Some
              (if st_totalParticipants (c_statistics c) = 0 then 0
               else of_int (st_completedParticipants (c_statistics c) + 1) /
                    of_int (st_totalParticipants (c_statistics c)) * 100) \<rparr> \<rparr>"
  using assms
  by (simp add: updateParticipantStatus_def Let_def completionRate_def completedEntry_def)

lemma findParticipant_updated:
  assumes "findParticipant c uid = Some p"
  shows "findParticipant (updateParticipantStatus c uid completed subs now) uid =
     Some (completedEntry c p subs now)"
proof -
  from assms have "p_userId p = uid"
    unfolding findParticipant_def by (rule find_Some_P)
  then have "p_userId (completedEntry c p subs now) = uid"
    by (simp add: completedEntry_def)
  with assms show ?thesis
    by (simp add: updateParticipantStatus_completed findParticipant_def find_update_first)
qed

lemma submit_success:
  assumes "findParticipant c uid = Some p" and "p_status p \<noteq> completed"
  shows "submit (Some c) uid u subs now later =
     (Inr (c_points c), Some (updateParticipantStatus c uid completed subs now),
      addPoints u (c_points c) (Some (''Completed challenge: '' @ c_title c)) later)"
  using assms
  by (simp add: submit_def Let_def updateParticipantStatus_completed)

lemma addParticipant_new:
  assumes "findParticipant c uid = None"
  shows "addParticipant c uid now =
     c\<lparr> c_participants := c_participants c @ [pendingEntry uid now],
        c_statistics := (c_statistics c)
          \<lparr> st_totalParticipants := st_totalParticipants (c_statistics c) + 1 \<rparr> \<rparr>"
  using assms by (simp add: addParticipant_def pendingEntry_def)

lemma findParticipant_added:
  assumes "findParticipant c uid = None"
  shows "findParticipant (addParticipant c uid now) uid = Some (pendingEntry uid now)"
  using assms
  by (simp add: addParticipant_new) (simp add: findParticipant_def find_append_new pendingEntry_def)

lemma join_success_iff:
  "join (Some c) uid u now = (Inr (), Some c') \<longleftrightarrow>
     c_isActive c \<and> findParticipant c uid = None \<and> isEligible c u \<and> c' = addParticipant c uid now"
  by (auto simp: join_def split: option.splits)

lemma isEligible_iff:
  "isEligible c u \<longleftrightarrow>
     (e_roles (c_eligibility c) \<noteq> [] \<longrightarrow> u_role u \<in> set (e_roles (c_eligibility c)))
   \<and> (truthy (e_experience (c_eligibility c)) \<longrightarrow>
        u_farming_experience u = e_experience (c_eligibility c))
   \<and> (e_states (c_eligibility c) \<noteq> [] \<longrightarrow>
        (\<exists>s. u_location_state u = Some s \<and> s \<in> set (e_states (c_eligibility c))))"
  by (auto simp: isEligible_def Let_def split: option.splits)

lemma trim_sample_titles:
  "trim ''Compost Making Challenge'' = ''Compost Making Challenge''"
  "trim ''Open Challenge'' = ''Open Challenge''"
  by (simp_all add: trim_def whitespace_def)

lemmas sample_defs = trim_sample_titles joinedChallenge_def inProgressChallenge_def completedChallenge_def
  compostData_def newChallenge_def addParticipant_def updateParticipantStatus_def
  findParticipant_def completionRate_def sampleSubmission_def Let_def pendingEntry_def

lemma joined_entry: "findParticipant joinedChallenge ''u1'' = Some (pendingEntry ''u1'' 5)"
  by (simp add: sample_defs)

lemma inProgress_entry:
  "findParticipant inProgressChallenge ''u1'' =
     Some ((pendingEntry ''u1'' 5)\<lparr> p_status := in_progress, p_submissions := [sampleSubmission] \<rparr>)"
  by (simp add: sample_defs)

lemma completed_entry:
  "findParticipant completedChallenge ''u1'' =
     Some ((pendingEntry ''u1'' 5)\<lparr> p_status := completed, p_submissions := [sampleSubmission],
        p_completedAt := Some 7, p_pointsEarned := 75 \<rparr>)"
  by (simp add: sample_defs)

section \<open>The ledger claims\<close>

text \<open>
  C2. For an account whose wallet balance equals the signed sum of its transaction log,
  the balance still equals the signed sum after every call of any sequence of
  \<open>addPoints\<close> calls (after the first \<open>k\<close> calls, for every \<open>k\<close>), whatever the amounts
  are; and each call appends exactly one transaction, of type \<open>earned\<close>, whose amount is
  the awarded amount.
\<close>

theorem wallet_balance_is_signed_sum:
  assumes "w_balance (u_wallet u) = signed_sum (w_transactions (u_wallet u))"
  shows "(\<forall>k. w_balance (u_wallet (awardAll u (take k calls))) =
               signed_sum (w_transactions (u_wallet (awardAll u (take k calls)))))
       \<and> (\<forall>v pts d now. \<exists>t. w_transactions (u_wallet (addPoints v pts d now)) =
               w_transactions (u_wallet v) @ [t] \<and> t_type t = earned \<and> t_amount t = pts)"
proof -
  from assms have "balanced u" by (simp add: balanced_def)
  then have "\<forall>k. balanced (awardAll u (take k calls))"
    by (simp add: awardAll_balanced)
  then show ?thesis
    by (simp add: balanced_def addPoints_wallet)
qed

theorem wallet_balance_is_signed_sum_witness:
  "w_balance (u_wallet newUser) = signed_sum (w_transactions (u_wallet newUser))
   \<and> w_balance (u_wallet (awardAll newUser
        [(50, Some ''Email verification bonus'', 0), (100, None, 1)])) = 150
   \<and> signed_sum (w_transactions (u_wallet (awardAll newUser
        [(50, Some ''Email verification bonus'', 0), (100, None, 1)]))) = 150"
proof -
  have h: "w_balance (u_wallet newUser) = signed_sum (w_transactions (u_wallet newUser))"
    by (simp add: newUser_def signed_sum_def)
  have b: "w_balance (u_wallet (awardAll newUser
        [(50, Some ''Email verification bonus'', 0), (100, None, 1)])) = 150"
    by (simp add: newUser_def addPoints_def Let_def)
  from wallet_balance_is_signed_sum [OF h, of "[(50, Some ''Email verification bonus'', 0), (100, None, 1)]"]
  have "w_balance (u_wallet (awardAll newUser (take 2
          [(50, Some ''Email verification bonus'', 0), (100, None, 1)]))) =
        signed_sum (w_transactions (u_wallet (awardAll newUser (take 2
          [(50, Some ''Email verification bonus'', 0), (100, None, 1)]))))"
    by blast
  with h b show ?thesis by simp
qed

text \<open>
  C3, as the code has it. The level never decreases across any sequence of \<open>addPoints\<close>
  calls, and each call leaves the level at the larger of the previous level and
  \<open>floor (experience / 1000) + 1\<close>. So \<open>level = floor (experience / 1000) + 1\<close> holds
  after every call of a sequence when it held before the sequence (as it does for a new
  account) and no awarded amount is negative; it is not restored when the stored level
  is already higher.
\<close>

theorem level_never_decreases:
  "(\<forall>j k. j \<le> k \<longrightarrow>
       level_of (awardAll u (take j calls)) \<le> level_of (awardAll u (take k calls)))
   \<and> (\<forall>v pts d now. level_of (addPoints v pts d now) =
       max (level_of v) (experience_of (addPoints v pts d now) div 1000 + 1))
   \<and> (level_of u = experience_of u div 1000 + 1 \<and> (\<forall>c\<in>set calls. 0 \<le> fst c) \<longrightarrow>
       (\<forall>k. level_of (awardAll u (take k calls)) =
            experience_of (awardAll u (take k calls)) div 1000 + 1))"
proof (intro conjI allI impI)
  fix j k :: nat
  assume "j \<le> k"
  then show "level_of (awardAll u (take j calls)) \<le> level_of (awardAll u (take k calls))"
    by (rule awardAll_take_level_mono)
next
  fix v pts d now
  show "level_of (addPoints v pts d now) =
        max (level_of v) (experience_of (addPoints v pts d now) div 1000 + 1)"
    by (simp add: level_of_def experience_of_def addPoints_gamification)
next
  fix k
  assume a: "level_of u = experience_of u div 1000 + 1 \<and> (\<forall>c\<in>set calls. 0 \<le> fst c)"
  then have "\<forall>c\<in>set (take k calls). 0 \<le> fst c"
    by (meson in_set_takeD)
  moreover from a have "level_derived u"
    by (simp add: level_derived_def)
  ultimately have "level_derived (awardAll u (take k calls))"
    by (intro awardAll_level_derived)
  then show "level_of (awardAll u (take k calls)) =
             experience_of (awardAll u (take k calls)) div 1000 + 1"
    by (simp add: level_derived_def)
qed

theorem level_never_decreases_witness:
  "level_of newUser = experience_of newUser div 1000 + 1
   \<and> (0::int) \<le> 1000 \<and> (0::int) \<le> 50
   \<and> level_of (awardAll newUser [(1000, None, 0), (50, None, 1)]) = 2
   \<and> experience_of (awardAll newUser [(1000, None, 0), (50, None, 1)]) div 1000 + 1 = 2
   \<and> level_of (awardAll newUser (take 1 [(1000, None, 0), (50, None, 1)]))
       \<le> level_of (awardAll newUser (take 2 [(1000, None, 0), (50, None, 1)]))"
proof -
  let ?cs = "[(1000, None, 0), (50, None, 1)] :: award list"
  have h1: "level_of newUser = experience_of newUser div 1000 + 1"
    by (simp add: newUser_def level_of_def experience_of_def)
  have h2: "\<forall>c\<in>set ?cs. 0 \<le> fst c" by simp
  have e: "experience_of (awardAll newUser ?cs) div 1000 + 1 = 2"
    by (simp add: newUser_def experience_of_def addPoints_def Let_def)
  note t = level_never_decreases [of newUser ?cs]
  from t h1 h2 have "level_of (awardAll newUser (take 2 ?cs)) =
      experience_of (awardAll newUser (take 2 ?cs)) div 1000 + 1"
    by blast
  moreover from t have "level_of (awardAll newUser (take 1 ?cs))
       \<le> level_of (awardAll newUser (take 2 ?cs))"
    by simp
  ultimately show ?thesis using h1 h2 e by simp
qed

text \<open>
  The equation of C3 fails on an account with the values that the seed script gives its
  first user, where the level 5 is above \<open>floor (2500 / 1000) + 1 = 3\<close>: after a bonus
  of 50 the level is still 5, while \<open>floor (2550 / 1000) + 1 = 3\<close>.
\<close>

theorem level_equation_counterexample:
  "level_of (addPoints (seedUser 0) 50 (Some ''Email verification bonus'') 1) = 5
   \<and> experience_of (addPoints (seedUser 0) 50 (Some ''Email verification bonus'') 1) div 1000 + 1 = 3"
  by (simp add: seedUser_def level_of_def experience_of_def addPoints_def Let_def)

text \<open>
  C4, as the code has it. \<open>addPoints\<close> checks nothing about the amount: for every account
  and every amount, zero and negative ones included, the call goes through. It adds the
  amount to points, experience and wallet balance, leaves the level at the larger of the
  previous level and \<open>floor (experience / 1000) + 1\<close> (so never lowers it), keeps every
  earlier transaction and appends exactly one, of type \<open>earned\<close>, with that amount, the
  given description and the current time. Nothing else of the account changes, and the
  account is never left as it was.
\<close>

theorem addPoints_accepts_any_amount:
  "g_points (u_gamification (addPoints u pts d now)) = g_points (u_gamification u) + pts
   \<and> g_experience (u_gamification (addPoints u pts d now)) =
       g_experience (u_gamification u) + pts
   \<and> g_level (u_gamification (addPoints u pts d now)) =
       max (g_level (u_gamification u)) ((g_experience (u_gamification u) + pts) div 1000 + 1)
   \<and> g_level (u_gamification u) \<le> g_level (u_gamification (addPoints u pts d now))
   \<and> w_balance (u_wallet (addPoints u pts d now)) = w_balance (u_wallet u) + pts
   \<and> w_transactions (u_wallet (addPoints u pts d now)) =
       w_transactions (u_wallet u) @
         [\<lparr> t_type = earned, t_amount = pts,
            t_description = (case d of None \<Rightarrow> ''Points earned'' | Some s \<Rightarrow> s),
            t_date = now \<rparr>]
   \<and> addPoints u pts d now =
       u\<lparr> u_gamification := u_gamification (addPoints u pts d now),
          u_wallet := u_wallet (addPoints u pts d now) \<rparr>
   \<and> addPoints u pts d now \<noteq> u"
proof -
  have "length (w_transactions (u_wallet (addPoints u pts d now))) \<noteq>
        length (w_transactions (u_wallet u))"
    by (simp add: addPoints_wallet)
  then have "addPoints u pts d now \<noteq> u" by auto
  moreover have "addPoints u pts d now =
       u\<lparr> u_gamification := u_gamification (addPoints u pts d now),
          u_wallet := u_wallet (addPoints u pts d now) \<rparr>"
    by (simp add: addPoints_def Let_def)
  ultimately show ?thesis
    by (simp add: addPoints_wallet addPoints_gamification)
qed

theorem addPoints_accepts_any_amount_witness:
  "g_points (u_gamification (addPoints newUser 0 None 3)) = 0
   \<and> g_level (u_gamification (addPoints newUser 0 None 3)) = 1
   \<and> w_balance (u_wallet (addPoints newUser 0 None 3)) = 0
   \<and> w_transactions (u_wallet (addPoints newUser 0 None 3)) =
       [\<lparr> t_type = earned, t_amount = 0, t_description = ''Points earned'', t_date = 3 \<rparr>]
   \<and> addPoints newUser 0 None 3 \<noteq> newUser"
  using addPoints_accepts_any_amount [of newUser 0 None 3]
  by (simp add: newUser_def)

text \<open>
  The rejection that C4 asks for does not happen at a new account and the amount \<open>-5\<close>:
  points, experience and balance become \<open>-5\<close> and the log has one entry.
\<close>

theorem addPoints_nonpositive_counterexample:
  "g_points (u_gamification (addPoints newUser (- 5) None 0)) = - 5
   \<and> g_experience (u_gamification (addPoints newUser (- 5) None 0)) = - 5
   \<and> w_balance (u_wallet (addPoints newUser (- 5) None 0)) = - 5
   \<and> w_transactions (u_wallet (addPoints newUser (- 5) None 0)) =
       [\<lparr> t_type = earned, t_amount = - 5, t_description = ''Points earned'', t_date = 0 \<rparr>]
   \<and> w_transactions (u_wallet newUser) = []"
  by (simp add: newUser_def addPoints_def Let_def)

section \<open>The one-time code claim\<close>

text \<open>
  C5, as the code has it. \<open>verifyOTP\<close> answers true exactly when a non-empty code and
  an expiry are stored, the current time is not after the expiry (\<open>now \<le> expiresAt\<close>:
  the method rejects only when \<open>expiresAt < now\<close>), and the candidate is equal to the
  stored code as a string. It never changes the document. A code generated at \<open>T\<close> is
  rejected 11 minutes later and accepted 5 minutes later.
\<close>

theorem verifyOTP_accepts_until_expiry:
  "(fst (verifyOTP u cand now) \<longleftrightarrow>
     (\<exists>stored code expiresAt. u_otp u = Some stored \<and> otp_code stored = Some code \<and> code \<noteq> []
        \<and> otp_expiresAt stored = Some expiresAt \<and> now \<le> expiresAt \<and> cand = code))
   \<and> snd (verifyOTP u cand now) = u
   \<and> \<not> fst (verifyOTP (snd (generateOTP v r T)) (fst (generateOTP v r T)) (T + 11 * 60 * 1000))
   \<and> fst (verifyOTP (snd (generateOTP v r T)) (fst (generateOTP v r T)) (T + 5 * 60 * 1000))"
proof (intro conjI)
  show "fst (verifyOTP u cand now) \<longleftrightarrow>
     (\<exists>stored code expiresAt. u_otp u = Some stored \<and> otp_code stored = Some code \<and> code \<noteq> []
        \<and> otp_expiresAt stored = Some expiresAt \<and> now \<le> expiresAt \<and> cand = code)"
    by (rule verifyOTP_iff)
  show "snd (verifyOTP u cand now) = u"
    by (simp add: verifyOTP_def split: option.splits)
  show "\<not> fst (verifyOTP (snd (generateOTP v r T)) (fst (generateOTP v r T)) (T + 11 * 60 * 1000))"
    by (simp add: verifyOTP_generated)
  show "fst (verifyOTP (snd (generateOTP v r T)) (fst (generateOTP v r T)) (T + 5 * 60 * 1000))"
    by (simp add: verifyOTP_generated)
qed

theorem verifyOTP_accepts_until_expiry_witness:
  "fst (verifyOTP (snd (generateOTP newUser 123456 0)) ''123456'' 300000)
   \<and> \<not> fst (verifyOTP (snd (generateOTP newUser 123456 0)) ''123456'' 660000)
   \<and> \<not> fst (verifyOTP (snd (generateOTP newUser 123456 0)) ''123457'' 300000)
   \<and> snd (verifyOTP (snd (generateOTP newUser 123456 0)) ''123456'' 300000) =
       snd (generateOTP newUser 123456 0)"
proof -
  have g: "fst (generateOTP newUser 123456 0) = ''123456''"
    by (simp add: generateOTP_def Let_def toString.simps digit_def)
  have w: "\<not> fst (verifyOTP (snd (generateOTP newUser 123456 0)) ''123457'' 300000)"
    by (simp add: verifyOTP_def generateOTP_def Let_def toString.simps digit_def truthy_def)
  note t = verifyOTP_accepts_until_expiry
    [of "snd (generateOTP newUser 123456 0)" "''123456''" 300000 newUser 123456 0]
  from t have a: "snd (verifyOTP (snd (generateOTP newUser 123456 0)) ''123456'' 300000) =
      snd (generateOTP newUser 123456 0)"
    by blast
  from t have b: "\<not> fst (verifyOTP (snd (generateOTP newUser 123456 0))
      (fst (generateOTP newUser 123456 0)) (0 + 11 * 60 * 1000))"
    by blast
  from t have c: "fst (verifyOTP (snd (generateOTP newUser 123456 0))
      (fst (generateOTP newUser 123456 0)) (0 + 5 * 60 * 1000))"
    by blast
  from a b c w show ?thesis by (simp add: g)
qed

text \<open>
  At the very instant of expiry the right code is still accepted, where C5 has it fail:
  a code generated at time 0 expires at 600000 and verifies at 600000.
\<close>

theorem verifyOTP_at_expiry_counterexample:
  "u_otp (snd (generateOTP newUser 123456 0)) =
     Some \<lparr> otp_code = Some ''123456'', otp_expiresAt = Some 600000 \<rparr>
   \<and> fst (verifyOTP (snd (generateOTP newUser 123456 0)) ''123456'' 600000)"
  by (simp add: verifyOTP_def generateOTP_def Let_def toString.simps digit_def truthy_def)

section \<open>The claims about joining\<close>

text \<open>
  C6, as the code has it. When an entry of the account exists, \<open>join\<close> fails and leaves
  the challenge untouched: with \<open>AlreadyJoined\<close> when the challenge is active, with
  \<open>ChallengeInactive\<close> when it is not (the route tests \<open>isActive\<close> first). A successful
  join appends one entry with status \<open>pending\<close> and adds exactly 1 to
  \<open>totalParticipants\<close>, after which every further join of the same account on the
  resulting challenge fails with \<open>AlreadyJoined\<close>; a failed join changes nothing.
\<close>

theorem join_rejects_existing_entry:
  "(findParticipant c uid \<noteq> None \<longrightarrow>
      join (Some c) uid u now =
        (Inl (if c_isActive c then AlreadyJoined else ChallengeInactive), Some c))
   \<and> (\<forall>c'. join (Some c) uid u now = (Inr (), Some c') \<longrightarrow>
        c_participants c' = c_participants c @
          [\<lparr> p_userId = uid, p_joinedAt = now, p_completedAt = None,
             p_status = pending, p_submissions = [], p_pointsEarned = 0 \<rparr>]
        \<and> st_totalParticipants (c_statistics c') = st_totalParticipants (c_statistics c) + 1
        \<and> (\<forall>u2 now2. join (Some c') uid u2 now2 = (Inl AlreadyJoined, Some c')))
   \<and> (\<forall>e. fst (join (Some c) uid u now) = Inl e \<longrightarrow> snd (join (Some c) uid u now) = Some c)
   \<and> (fst (join (Some c) uid u now) = Inr () \<longleftrightarrow>
        c_isActive c \<and> findParticipant c uid = None \<and> isEligible c u)"
proof (intro conjI allI impI)
  show "fst (join (Some c) uid u now) = Inr () \<longleftrightarrow>
        c_isActive c \<and> findParticipant c uid = None \<and> isEligible c u"
    by (auto simp: join_def split: option.splits)
next
  assume "findParticipant c uid \<noteq> None"
  then show "join (Some c) uid u now =
        (Inl (if c_isActive c then AlreadyJoined else ChallengeInactive), Some c)"
    by (auto simp: join_def)
next
  fix c'
  assume "join (Some c) uid u now = (Inr (), Some c')"
  then have a: "c_isActive c" and n: "findParticipant c uid = None"
    and c': "c' = addParticipant c uid now"
    by (simp_all add: join_success_iff)
  show "c_participants c' = c_participants c @
          [\<lparr> p_userId = uid, p_joinedAt = now, p_completedAt = None,
             p_status = pending, p_submissions = [], p_pointsEarned = 0 \<rparr>]"
    using n by (simp add: c' addParticipant_new pendingEntry_def)
  show "st_totalParticipants (c_statistics c') = st_totalParticipants (c_statistics c) + 1"
    using n by (simp add: c' addParticipant_new)
  fix u2 now2
  have "findParticipant c' uid = Some (pendingEntry uid now)"
    unfolding c' using n by (rule findParticipant_added)
  moreover have "c_isActive c'"
    using a n by (simp add: c' addParticipant_new)
  ultimately show "join (Some c') uid u2 now2 = (Inl AlreadyJoined, Some c')"
    by (simp add: join_def)
next
  fix e
  assume "fst (join (Some c) uid u now) = Inl e"
  then show "snd (join (Some c) uid u now) = Some c"
    by (auto simp: join_def split: option.splits if_splits)
qed

theorem join_rejects_existing_entry_witness:
  "join (Some (newChallenge compostData)) ''u1'' newUser 5 = (Inr (), Some joinedChallenge)
   \<and> c_participants joinedChallenge =
       [\<lparr> p_userId = ''u1'', p_joinedAt = 5, p_completedAt = None,
          p_status = pending, p_submissions = [], p_pointsEarned = 0 \<rparr>]
   \<and> st_totalParticipants (c_statistics joinedChallenge) = 1
   \<and> join (Some joinedChallenge) ''u1'' newUser 6 = (Inl AlreadyJoined, Some joinedChallenge)"
proof -
  have h: "join (Some (newChallenge compostData)) ''u1'' newUser 5 = (Inr (), Some joinedChallenge)"
    by (simp add: join_def isEligible_def truthy_def newUser_def sample_defs)
  have z: "c_participants (newChallenge compostData) = []"
    "st_totalParticipants (c_statistics (newChallenge compostData)) = 0"
    by (simp_all add: newChallenge_def)
  from join_rejects_existing_entry [of "newChallenge compostData" "''u1''" newUser 5] h
  have "c_participants joinedChallenge = c_participants (newChallenge compostData) @
          [\<lparr> p_userId = ''u1'', p_joinedAt = 5, p_completedAt = None,
             p_status = pending, p_submissions = [], p_pointsEarned = 0 \<rparr>]
        \<and> st_totalParticipants (c_statistics joinedChallenge) =
            st_totalParticipants (c_statistics (newChallenge compostData)) + 1
        \<and> (\<forall>u2 now2. join (Some joinedChallenge) ''u1'' u2 now2 =
              (Inl AlreadyJoined, Some joinedChallenge))"
    by blast
  with h z show ?thesis by simp
qed

text \<open>
  On an inactive challenge that the account has joined, the second join fails with
  \<open>ChallengeInactive\<close>, not with \<open>AlreadyJoined\<close> as C6 has it.
\<close>

theorem join_inactive_first_counterexample:
  "map p_userId (c_participants (joinedChallenge\<lparr> c_isActive := False \<rparr>)) = [''u1'']
   \<and> join (Some (joinedChallenge\<lparr> c_isActive := False \<rparr>)) ''u1'' newUser 6 =
        (Inl ChallengeInactive, Some (joinedChallenge\<lparr> c_isActive := False \<rparr>))"
  by (simp add: join_def sample_defs)

text \<open>
  C8, as the code has it. \<open>isEligible\<close> is true exactly when the three checks pass: a
  non-empty \<open>eligibility.roles\<close> contains the account's role; a set
  \<open>eligibility.experience\<close> is equal to the account's \<open>farmingProfile.experience\<close>; a
  non-empty \<open>eligibility.location.states\<close> contains the account's state. An account
  whose role is not in a non-empty \<open>eligibility.roles\<close> is always rejected by \<open>join\<close>,
  whatever its other fields are, and the challenge stays as it was. The error is
  \<open>ChallengeInactive\<close> when the challenge is inactive, \<open>AlreadyJoined\<close> when it is active
  and the account has an entry, and \<open>NotEligible\<close> when it is active and the account has
  no entry yet.
\<close>

theorem isEligible_three_checks:
  "(isEligible c u \<longleftrightarrow>
      (e_roles (c_eligibility c) \<noteq> [] \<longrightarrow> u_role u \<in> set (e_roles (c_eligibility c)))
    \<and> (truthy (e_experience (c_eligibility c)) \<longrightarrow>
         u_farming_experience u = e_experience (c_eligibility c))
    \<and> (e_states (c_eligibility c) \<noteq> [] \<longrightarrow>
         (\<exists>s. u_location_state u = Some s \<and> s \<in> set (e_states (c_eligibility c)))))
   \<and> (e_roles (c_eligibility c) \<noteq> [] \<and> u_role u \<notin> set (e_roles (c_eligibility c)) \<longrightarrow>
        join (Some c) uid u now =
          (Inl (if \<not> c_isActive c then ChallengeInactive
                else if findParticipant c uid \<noteq> None then AlreadyJoined
                else NotEligible),
           Some c)
        \<and> (c_isActive c \<and> findParticipant c uid = None \<longrightarrow>
             join (Some c) uid u now = (Inl NotEligible, Some c)))"
proof (intro conjI impI)
  show "isEligible c u \<longleftrightarrow>
      (e_roles (c_eligibility c) \<noteq> [] \<longrightarrow> u_role u \<in> set (e_roles (c_eligibility c)))
    \<and> (truthy (e_experience (c_eligibility c)) \<longrightarrow>
         u_farming_experience u = e_experience (c_eligibility c))
    \<and> (e_states (c_eligibility c) \<noteq> [] \<longrightarrow>
         (\<exists>s. u_location_state u = Some s \<and> s \<in> set (e_states (c_eligibility c))))"
    by (rule isEligible_iff)
next
  assume r: "e_roles (c_eligibility c) \<noteq> [] \<and> u_role u \<notin> set (e_roles (c_eligibility c))"
  then have ne: "\<not> isEligible c u" by (simp add: isEligible_iff)
  then show "join (Some c) uid u now =
          (Inl (if \<not> c_isActive c then ChallengeInactive
                else if findParticipant c uid \<noteq> None then AlreadyJoined
                else NotEligible),
           Some c)"
    by (auto simp: join_def split: option.splits)
  assume "c_isActive c \<and> findParticipant c uid = None"
  with ne show "join (Some c) uid u now = (Inl NotEligible, Some c)"
    by (simp add: join_def)
qed

theorem isEligible_three_checks_witness:
  "e_roles (c_eligibility (newChallenge compostData)) = [''farmer'', ''student'']
   \<and> u_role dealerUser = ''dealer''
   \<and> c_isActive (newChallenge compostData)
   \<and> findParticipant (newChallenge compostData) ''u2'' = None
   \<and> \<not> isEligible (newChallenge compostData) dealerUser
   \<and> isEligible (newChallenge compostData) newUser
   \<and> join (Some (newChallenge compostData)) ''u2'' dealerUser 5 =
        (Inl NotEligible, Some (newChallenge compostData))"
proof -
  let ?c = "newChallenge compostData"
  have r: "e_roles (c_eligibility ?c) = [''farmer'', ''student'']"
    by (simp add: sample_defs)
  have d: "u_role dealerUser = ''dealer''"
    by (simp add: dealerUser_def)
  have a: "c_isActive ?c" and n: "findParticipant ?c ''u2'' = None"
    by (simp_all add: sample_defs)
  have e: "isEligible ?c newUser"
    by (simp add: isEligible_def truthy_def newUser_def sample_defs)
  from isEligible_three_checks [of ?c dealerUser "''u2''" 5] r d a n
  have "\<not> isEligible ?c dealerUser \<and> join (Some ?c) ''u2'' dealerUser 5 = (Inl NotEligible, Some ?c)"
    by simp
  with r d a n e show ?thesis by simp
qed

text \<open>
  On an inactive challenge an account with a role outside the non-empty
  \<open>eligibility.roles\<close> is rejected with \<open>ChallengeInactive\<close>, not with \<open>NotEligible\<close>
  as C8 has it.
\<close>

theorem join_not_eligible_counterexample:
  "e_roles (c_eligibility (newChallenge (compostData\<lparr> d_isActive := Some False \<rparr>))) =
      [''farmer'', ''student'']
   \<and> u_role dealerUser = ''dealer''
   \<and> join (Some (newChallenge (compostData\<lparr> d_isActive := Some False \<rparr>))) ''u2'' dealerUser 5 =
        (Inl ChallengeInactive, Some (newChallenge (compostData\<lparr> d_isActive := Some False \<rparr>)))"
  by (simp add: join_def dealerUser_def sample_defs)

text \<open>
  C10, as the code has it. A challenge created with \<open>eligibility.experience\<close> left out
  gets the default \<open>'beginner'\<close>, so \<open>isEligible\<close> is false for every account whose
  \<open>farmingProfile.experience\<close> is not exactly \<open>'beginner'\<close>. Among the challenges whose
  experience path passes the schema's validator, the experience check is switched off
  exactly for those created with an explicit \<open>null\<close>: leaving the path out or giving it
  a string never switches it off, and with a \<open>null\<close> eligibility depends on the roles and
  the states alone. The defaults of roles and states, the empty lists, do switch their
  checks off: with all three paths left out, eligibility depends on the experience
  alone.
\<close>

theorem default_experience_is_beginner:
  "(d_experience d = Undefined \<longrightarrow>
      e_experience (c_eligibility (newChallenge d)) = Some ''beginner''
      \<and> (\<forall>u::user. u_farming_experience u \<noteq> Some ''beginner'' \<longrightarrow>
            \<not> isEligible (newChallenge d) u))
   \<and> (validExperience (newChallenge d) \<longrightarrow>
        (truthy (e_experience (c_eligibility (newChallenge d))) \<longleftrightarrow> d_experience d \<noteq> Null))
   \<and> (d_experience d = Null \<longrightarrow>
        validExperience (newChallenge d)
        \<and> (\<forall>u::user. isEligible (newChallenge d) u \<longleftrightarrow>
             (e_roles (c_eligibility (newChallenge d)) \<noteq> [] \<longrightarrow>
                u_role u \<in> set (e_roles (c_eligibility (newChallenge d))))
           \<and> (e_states (c_eligibility (newChallenge d)) \<noteq> [] \<longrightarrow>
                (\<exists>s. u_location_state u = Some s
                   \<and> s \<in> set (e_states (c_eligibility (newChallenge d)))))))
   \<and> (d_roles d = None \<and> d_states d = None \<and> d_experience d = Undefined \<longrightarrow>
        (\<forall>u::user. isEligible (newChallenge d) u \<longleftrightarrow>
            u_farming_experience u = Some ''beginner''))"
proof (intro conjI impI allI)
  assume "d_experience d = Undefined"
  then show e: "e_experience (c_eligibility (newChallenge d)) = Some ''beginner''"
    by (simp add: newChallenge_def)
  fix u :: user assume "u_farming_experience u \<noteq> Some ''beginner''"
  with e show "\<not> isEligible (newChallenge d) u"
    by (simp add: isEligible_iff truthy_def)
next
  assume v: "validExperience (newChallenge d)"
  show "truthy (e_experience (c_eligibility (newChallenge d))) \<longleftrightarrow> d_experience d \<noteq> Null"
  proof (cases "d_experience d")
    case Undefined
    then show ?thesis by (simp add: newChallenge_def truthy_def)
  next
    case Null
    then show ?thesis by (simp add: newChallenge_def truthy_def)
  next
    case (Value x)
    with v show ?thesis
      by (auto simp: newChallenge_def truthy_def validExperience_def)
  qed
next
  assume "d_experience d = Null"
  then show "validExperience (newChallenge d)"
    by (simp add: validExperience_def newChallenge_def)
next
  fix u :: user
  assume "d_experience d = Null"
  then have "\<not> truthy (e_experience (c_eligibility (newChallenge d)))"
    by (simp add: newChallenge_def truthy_def)
  then show "isEligible (newChallenge d) u \<longleftrightarrow>
             (e_roles (c_eligibility (newChallenge d)) \<noteq> [] \<longrightarrow>
                u_role u \<in> set (e_roles (c_eligibility (newChallenge d))))
           \<and> (e_states (c_eligibility (newChallenge d)) \<noteq> [] \<longrightarrow>
                (\<exists>s. u_location_state u = Some s
                   \<and> s \<in> set (e_states (c_eligibility (newChallenge d)))))"
    by (simp add: isEligible_iff)
next
  fix u :: user
  assume "d_roles d = None \<and> d_states d = None \<and> d_experience d = Undefined"
  then show "isEligible (newChallenge d) u \<longleftrightarrow> u_farming_experience u = Some ''beginner''"
    by (simp add: isEligible_iff newChallenge_def truthy_def)
qed

theorem default_experience_is_beginner_witness:
  "d_experience unrestrictedData = Undefined \<and> d_roles unrestrictedData = None
   \<and> d_states unrestrictedData = None
   \<and> validExperience (newChallenge unrestrictedData)
   \<and> e_experience (c_eligibility (newChallenge unrestrictedData)) = Some ''beginner''
   \<and> truthy (e_experience (c_eligibility (newChallenge unrestrictedData)))
   \<and> u_farming_experience (seedUser 0) = Some ''intermediate''
   \<and> \<not> isEligible (newChallenge unrestrictedData) (seedUser 0)
   \<and> isEligible (newChallenge unrestrictedData) dealerUser
   \<and> d_experience nullExperienceData = Null
   \<and> validExperience (newChallenge nullExperienceData)
   \<and> \<not> truthy (e_experience (c_eligibility (newChallenge nullExperienceData)))"
proof -
  have h: "d_experience unrestrictedData = Undefined" "d_roles unrestrictedData = None"
    "d_states unrestrictedData = None"
    by (simp_all add: unrestrictedData_def)
  have n: "d_experience nullExperienceData = Null"
    by (simp add: nullExperienceData_def)
  have v: "validExperience (newChallenge unrestrictedData)"
    by (simp add: validExperience_def newChallenge_def unrestrictedData_def)
  have s: "u_farming_experience (seedUser 0) = Some ''intermediate''"
    "u_farming_experience dealerUser = Some ''beginner''"
    by (simp_all add: seedUser_def dealerUser_def newUser_def)
  note t = default_experience_is_beginner [of unrestrictedData]
  note t' = default_experience_is_beginner [of nullExperienceData]
  from t h have "e_experience (c_eligibility (newChallenge unrestrictedData)) = Some ''beginner''"
    by blast
  moreover from t h v have "truthy (e_experience (c_eligibility (newChallenge unrestrictedData)))"
    by auto
  moreover from t h s have "\<not> isEligible (newChallenge unrestrictedData) (seedUser 0)"
    by simp
  moreover from t h s have "isEligible (newChallenge unrestrictedData) dealerUser"
    by simp
  moreover from t' n have v': "validExperience (newChallenge nullExperienceData)"
    by blast
  moreover from t' n v'
  have "\<not> truthy (e_experience (c_eligibility (newChallenge nullExperienceData)))"
    by auto
  ultimately show ?thesis using h n v s by simp
qed

text \<open>
  The experience check can be switched off through the schema, where C10 has that
  unreachable: a challenge created with an explicit \<open>null\<close> passes the validator, has no
  experience constraint, and an account of intermediate experience (with the values the
  seed script gives its first user) is eligible for it.
\<close>

theorem null_experience_counterexample:
  "validExperience (newChallenge nullExperienceData)
   \<and> e_experience (c_eligibility (newChallenge nullExperienceData)) = None
   \<and> u_farming_experience (seedUser 0) = Some ''intermediate''
   \<and> isEligible (newChallenge nullExperienceData) (seedUser 0)"
  by (simp add: validExperience_def newChallenge_def nullExperienceData_def unrestrictedData_def
        isEligible_def truthy_def seedUser_def)

section \<open>The claims about submitting\<close>

text \<open>
  C1, as the code has it. For a challenge with an entry of the account whose status is
  not \<open>completed\<close>, \<open>submit\<close> succeeds and answers with the challenge's points. The
  entry gets the submitted list when that list is non-empty and keeps its stored
  submissions when the list is empty; its status becomes \<open>completed\<close>, \<open>completedAt\<close>
  the current time and \<open>pointsEarned\<close> the challenge's points. \<open>completedParticipants\<close>
  grows by 1, \<open>totalParticipants\<close> stays, and \<open>successRate\<close> becomes
  \<open>completedParticipants / totalParticipants * 100\<close> (0 when \<open>totalParticipants\<close> is 0).
  The account is then awarded the challenge's points through \<open>addPoints\<close> with the
  description \<open>Completed challenge: <title>\<close>: points, experience and wallet balance
  each grow by the challenge's points and one \<open>earned\<close> transaction is appended.
\<close>

theorem submit_completes_and_awards:
  assumes "findParticipant c uid = Some p" and "p_status p \<noteq> completed"
  shows "\<exists>c' u'. submit (Some c) uid u subs now later = (Inr (c_points c), Some c', u')
     \<and> findParticipant c' uid = Some (p\<lparr> p_status := completed,
           p_submissions := (if subs = [] then p_submissions p else subs),
           p_completedAt := Some now, p_pointsEarned := c_points c \<rparr>)
     \<and> st_completedParticipants (c_statistics c') = st_completedParticipants (c_statistics c) + 1
     \<and> st_totalParticipants (c_statistics c') = st_totalParticipants (c_statistics c)
     \<and> st_successRate (c_statistics c') = Some
           (if st_totalParticipants (c_statistics c) = 0 then 0
            else of_int (st_completedParticipants (c_statistics c) + 1) /
                 of_int (st_totalParticipants (c_statistics c)) * 100)
     \<and> u' = addPoints u (c_points c) (Some (''Completed challenge: '' @ c_title c)) later
     \<and> g_points (u_gamification u') = g_points (u_gamification u) + c_points c
     \<and> g_experience (u_gamification u') = g_experience (u_gamification u) + c_points c
     \<and> w_balance (u_wallet u') = w_balance (u_wallet u) + c_points c
     \<and> w_transactions (u_wallet u') = w_transactions (u_wallet u) @
           [\<lparr> t_type = earned, t_amount = c_points c,
              t_description = ''Completed challenge: '' @ c_title c, t_date = later \<rparr>]"
proof -
  let ?c' = "updateParticipantStatus c uid completed subs now"
  let ?u' = "addPoints u (c_points c) (Some (''Completed challenge: '' @ c_title c)) later"
  have 1: "submit (Some c) uid u subs now later = (Inr (c_points c), Some ?c', ?u')"
    using assms by (rule submit_success)
  have 2: "findParticipant ?c' uid = Some (completedEntry c p subs now)"
    using assms(1) by (rule findParticipant_updated)
  have 3: "c_statistics ?c' = (c_statistics c)
          \<lparr> st_completedParticipants := st_completedParticipants (c_statistics c) + 1,
            st_successRate := Some
              (if st_totalParticipants (c_statistics c) = 0 then 0
               else of_int (st_completedParticipants (c_statistics c) + 1) /
                    of_int (st_totalParticipants (c_statistics c)) * 100) \<rparr>"
    using assms(1) by (simp add: updateParticipantStatus_completed)
  show ?thesis
    apply (rule exI [of _ ?c'])
    apply (rule exI [of _ ?u'])
    apply (simp only: 1 2 3)
    apply (simp add: completedEntry_def addPoints_wallet addPoints_gamification)
    done
qed

theorem submit_completes_and_awards_witness:
  "findParticipant joinedChallenge ''u1'' = Some (pendingEntry ''u1'' 5)
   \<and> p_status (pendingEntry ''u1'' 5) \<noteq> completed
   \<and> fst (submit (Some joinedChallenge) ''u1'' newUser [sampleSubmission] 7 8) = Inr 75
   \<and> map_option (\<lambda>c. findParticipant c ''u1'')
        (fst (snd (submit (Some joinedChallenge) ''u1'' newUser [sampleSubmission] 7 8))) =
      Some (Some \<lparr> p_userId = ''u1'', p_joinedAt = 5, p_completedAt = Some 7,
                   p_status = completed, p_submissions = [sampleSubmission],
                   p_pointsEarned = 75 \<rparr>)
   \<and> map_option c_statistics
        (fst (snd (submit (Some joinedChallenge) ''u1'' newUser [sampleSubmission] 7 8))) =
      Some \<lparr> st_totalParticipants = 1, st_completedParticipants = 1, st_successRate = Some 100 \<rparr>
   \<and> w_balance (u_wallet (snd (snd (submit (Some joinedChallenge) ''u1'' newUser [sampleSubmission] 7 8)))) = 75"
proof -
  have h1: "findParticipant joinedChallenge ''u1'' = Some (pendingEntry ''u1'' 5)"
    by (rule joined_entry)
  have h2: "p_status (pendingEntry ''u1'' 5) \<noteq> completed"
    by (simp add: pendingEntry_def)
  have j: "c_points joinedChallenge = 75" "c_title joinedChallenge = ''Compost Making Challenge''"
    "c_statistics joinedChallenge =
       \<lparr> st_totalParticipants = 1, st_completedParticipants = 0, st_successRate = None \<rparr>"
    by (simp_all add: sample_defs)
  from submit_completes_and_awards [OF h1 h2, of newUser "[sampleSubmission]" 7 8]
  obtain c' u' where
    "submit (Some joinedChallenge) ''u1'' newUser [sampleSubmission] 7 8 = (Inr 75, Some c', u')"
    "findParticipant c' ''u1'' = Some ((pendingEntry ''u1'' 5)\<lparr> p_status := completed,
           p_submissions := [sampleSubmission], p_completedAt := Some 7, p_pointsEarned := 75 \<rparr>)"
    "st_completedParticipants (c_statistics c') = 1"
    "st_totalParticipants (c_statistics c') = 1"
    "st_successRate (c_statistics c') = Some 100"
    "w_balance (u_wallet u') = w_balance (u_wallet newUser) + 75"
    unfolding j by auto
  then show ?thesis
    using h1 h2 by (simp add: pendingEntry_def newUser_def)
qed

text \<open>
  An entry that is \<open>in_progress\<close> with one stored submission keeps that submission
  when the account submits the empty list, where C1 has the entry's submissions set to
  the submitted list.
\<close>

theorem submit_sets_submissions_counterexample:
  "map p_status (c_participants inProgressChallenge) = [in_progress]
   \<and> map p_submissions (c_participants inProgressChallenge) = [[sampleSubmission]]
   \<and> fst (submit (Some inProgressChallenge) ''u1'' newUser [] 7 8) = Inr 75
   \<and> map_option (map p_submissions \<circ> c_participants)
        (fst (snd (submit (Some inProgressChallenge) ''u1'' newUser [] 7 8))) =
      Some [[sampleSubmission]]"
  by (simp add: submit_def sample_defs)

text \<open>
  C7. When the account's entry has the status \<open>completed\<close>, \<open>submit\<close> fails with
  \<open>AlreadyCompleted\<close> and leaves the challenge document (the entry with its
  \<open>pointsEarned\<close>, and the statistics) and the account document (points, experience,
  wallet balance, transaction log) exactly as they were.
\<close>

theorem submit_after_completed_rejected:
  assumes "findParticipant c uid = Some p" and "p_status p = completed"
  shows "submit (Some c) uid u subs now later = (Inl AlreadyCompleted, Some c, u)"
  using assms by (simp add: submit_def)

theorem submit_after_completed_rejected_witness:
  "findParticipant completedChallenge ''u1'' =
     Some \<lparr> p_userId = ''u1'', p_joinedAt = 5, p_completedAt = Some 7, p_status = completed,
            p_submissions = [sampleSubmission], p_pointsEarned = 75 \<rparr>
   \<and> submit (Some completedChallenge) ''u1'' newUser [sampleSubmission] 9 10 =
        (Inl AlreadyCompleted, Some completedChallenge, newUser)"
proof -
  have h1: "findParticipant completedChallenge ''u1'' =
     Some \<lparr> p_userId = ''u1'', p_joinedAt = 5, p_completedAt = Some 7, p_status = completed,
            p_submissions = [sampleSubmission], p_pointsEarned = 75 \<rparr>"
    by (simp add: completed_entry pendingEntry_def)
  have h2: "p_status \<lparr> p_userId = ''u1'', p_joinedAt = 5, p_completedAt = Some 7,
      p_status = completed, p_submissions = [sampleSubmission], p_pointsEarned = 75 \<rparr> = completed"
    by simp
  from submit_after_completed_rejected [OF h1 h2, of newUser "[sampleSubmission]" 9 10] h1
  show ?thesis by simp
qed

text \<open>
  C9. When \<open>submit\<close> succeeds with the empty list, the entry keeps the submissions it
  had, while the status becomes \<open>completed\<close>, \<open>completedAt\<close> and \<open>pointsEarned\<close> are
  set, \<open>completedParticipants\<close> grows by 1 and the account is awarded the points. A
  non-empty list does overwrite the stored submissions.
\<close>

theorem submit_empty_keeps_submissions:
  assumes "findParticipant c uid = Some p" and "p_status p \<noteq> completed"
  shows "\<exists>c' p'. submit (Some c) uid u [] now later =
        (Inr (c_points c), Some c',
         addPoints u (c_points c) (Some (''Completed challenge: '' @ c_title c)) later)
     \<and> findParticipant c' uid = Some p'
     \<and> p_submissions p' = p_submissions p
     \<and> p_status p' = completed \<and> p_completedAt p' = Some now \<and> p_pointsEarned p' = c_points c
     \<and> st_completedParticipants (c_statistics c') = st_completedParticipants (c_statistics c) + 1
     \<and> (\<forall>subs. subs \<noteq> [] \<longrightarrow>
          (\<exists>c2 p2. fst (snd (submit (Some c) uid u subs now later)) = Some c2
              \<and> findParticipant c2 uid = Some p2 \<and> p_submissions p2 = subs))"
proof -
  let ?c' = "updateParticipantStatus c uid completed [] now"
  have "submit (Some c) uid u [] now later =
        (Inr (c_points c), Some ?c',
         addPoints u (c_points c) (Some (''Completed challenge: '' @ c_title c)) later)"
    using assms by (rule submit_success)
  moreover have "findParticipant ?c' uid = Some (completedEntry c p [] now)"
    using assms(1) by (rule findParticipant_updated)
  moreover have "st_completedParticipants (c_statistics ?c') =
        st_completedParticipants (c_statistics c) + 1"
    using assms(1) by (simp add: updateParticipantStatus_completed)
  moreover have "\<exists>c2 p2. fst (snd (submit (Some c) uid u subs now later)) = Some c2
              \<and> findParticipant c2 uid = Some p2 \<and> p_submissions p2 = subs"
    if "subs \<noteq> []" for subs
    using that assms
    by (simp add: submit_success findParticipant_updated completedEntry_def)
  ultimately show ?thesis
    by (simp add: completedEntry_def)
qed

theorem submit_empty_keeps_submissions_witness:
  "findParticipant inProgressChallenge ''u1'' =
     Some \<lparr> p_userId = ''u1'', p_joinedAt = 5, p_completedAt = None, p_status = in_progress,
            p_submissions = [sampleSubmission], p_pointsEarned = 0 \<rparr>
   \<and> fst (submit (Some inProgressChallenge) ''u1'' newUser [] 7 8) = Inr 75
   \<and> map_option (\<lambda>c. findParticipant c ''u1'')
        (fst (snd (submit (Some inProgressChallenge) ''u1'' newUser [] 7 8))) =
      Some (Some \<lparr> p_userId = ''u1'', p_joinedAt = 5, p_completedAt = Some 7,
                   p_status = completed, p_submissions = [sampleSubmission],
                   p_pointsEarned = 75 \<rparr>)
   \<and> w_balance (u_wallet (snd (snd (submit (Some inProgressChallenge) ''u1'' newUser [] 7 8)))) = 75"
proof -
  let ?p = "\<lparr> p_userId = ''u1'', p_joinedAt = 5, p_completedAt = None, p_status = in_progress,
            p_submissions = [sampleSubmission], p_pointsEarned = 0 \<rparr>"
  have h1: "findParticipant inProgressChallenge ''u1'' = Some ?p"
    by (simp add: inProgress_entry pendingEntry_def)
  have h2: "p_status ?p \<noteq> completed" by simp
  have j: "c_points inProgressChallenge = 75"
    by (simp add: sample_defs)
  from submit_empty_keeps_submissions [OF h1 h2, of newUser 7 8]
  obtain c' p' where
    "submit (Some inProgressChallenge) ''u1'' newUser [] 7 8 =
       (Inr 75, Some c', addPoints newUser 75
          (Some (''Completed challenge: '' @ c_title inProgressChallenge)) 8)"
    "findParticipant c' ''u1'' = Some p'" "p_submissions p' = [sampleSubmission]"
    "p_status p' = completed" "p_completedAt p' = Some 7" "p_pointsEarned p' = 75"
    unfolding j by auto
  moreover have "map_option (\<lambda>c. findParticipant c ''u1'')
        (fst (snd (submit (Some inProgressChallenge) ''u1'' newUser [] 7 8))) =
      Some (Some \<lparr> p_userId = ''u1'', p_joinedAt = 5, p_completedAt = Some 7,
                   p_status = completed, p_submissions = [sampleSubmission],
                   p_pointsEarned = 75 \<rparr>)"
    by (simp add: submit_def sample_defs)
  ultimately show ?thesis
    using h1 by (simp add: addPoints_wallet newUser_def)
qed

end
